theory Spec2Isabelle
  imports Complex_Main
begin

section \<open>Data model\<close>

text \<open>
  The repository holds two engines with the same constant table and helpers:
  \<^verbatim>\<open>src/calculator.js\<close> (options record, overridable dues rate) and
  \<^verbatim>\<open>src/unnamed/part_000\<close> (bare mode string, fixed dues rate). Definitions taken
  from \<^verbatim>\<open>part_000\<close> carry the suffix \<open>_alt\<close>; the constants,
  \<open>clamp\<close> and \<open>applyProgressiveTax\<close> are textually the same in both files and are
  embedded once.

  Every amount is a \<^typ>\<open>real\<close>. The code is embedded twice: first with every number
  read as an exact real, then (suffix \<open>_rd\<close>) with a rounding function at every literal
  and arithmetic operation, of which the first reading is the instance without rounding
  and the code as it runs is the instance with \<open>double\<close>, the rounding of IEEE 754
  binary64. \<open>NaN\<close> and infinite amounts are outside the model. The one infinite number
  of the source, the \<open>Infinity\<close> limit of the last bracket, is kept as a value of its
  own.
\<close>

datatype jsnum = Fin real | Infinity

text \<open>An argument or option that may be absent: \<open>undefined\<close>, \<open>null\<close>, or a value.\<close>

datatype 'a js_opt = Undefined | Null | Val 'a

record bracket =
  limit :: jsnum
  rate :: real

record contributions =
  cpp :: real
  cpp2 :: real
  ei :: real

record incomeTax =
  federalWeekly :: real
  abWeekly :: real

record deductions = contributions +
  federalTax :: real
  albertaTax :: real
  unionDues :: real
  totalDeductions :: real
  netTaxableOnly :: real
  netPayTotal :: real

record options =
  unionDuesRate :: "real js_opt"
  taxMode :: "string js_opt"

section \<open>Constants (2025)\<close>

definition CPP_RATE :: real where "CPP_RATE = 0.0595"
definition CPP_YMPE :: real where "CPP_YMPE = 71300"
definition CPP_BASIC_EXEMPTION :: real where "CPP_BASIC_EXEMPTION = 3500"
definition CPP_MAX_CONTRIB :: real where "CPP_MAX_CONTRIB = 4034.10"

definition CPP2_RATE :: real where "CPP2_RATE = 0.04"
definition CPP2_YAMPE :: real where "CPP2_YAMPE = 81200"
definition CPP2_MAX_CONTRIB :: real where "CPP2_MAX_CONTRIB = 396.0"

definition EI_RATE :: real where "EI_RATE = 0.0164"
definition EI_MAX_INSURABLE :: real where "EI_MAX_INSURABLE = 65700"
definition EI_MAX_CONTRIB :: real where "EI_MAX_CONTRIB = 1077.48"

definition FED_BRACKETS_2025 :: "bracket list" where
  "FED_BRACKETS_2025 =
    [\<lparr>limit = Fin 57375, rate = 0.15\<rparr>,
     \<lparr>limit = Fin 114750, rate = 0.205\<rparr>,
     \<lparr>limit = Fin 177882, rate = 0.26\<rparr>,
     \<lparr>limit = Fin 253414, rate = 0.29\<rparr>,
     \<lparr>limit = Infinity, rate = 0.33\<rparr>]"

definition FED_BPA :: real where "FED_BPA = 16129"
definition FED_CREDIT_RATE :: real where "FED_CREDIT_RATE = 0.145"

definition AB_BRACKETS_2025 :: "bracket list" where
  "AB_BRACKETS_2025 =
    [\<lparr>limit = Fin 60000, rate = 0.08\<rparr>,
     \<lparr>limit = Fin 151234, rate = 0.10\<rparr>,
     \<lparr>limit = Fin 181481, rate = 0.12\<rparr>,
     \<lparr>limit = Fin 241974, rate = 0.13\<rparr>,
     \<lparr>limit = Fin 362961, rate = 0.14\<rparr>,
     \<lparr>limit = Infinity, rate = 0.15\<rparr>]"

definition AB_BPA :: real where "AB_BPA = 22323"
definition AB_CREDIT_RATE :: real where "AB_CREDIT_RATE = 0.08"

text \<open>\<^verbatim>\<open>DEFAULT_UNION_DUES_RATE\<close> of calculator.js, \<^verbatim>\<open>UNION_DUES_RATE\<close> of part_000.\<close>

definition DEFAULT_UNION_DUES_RATE :: real where "DEFAULT_UNION_DUES_RATE = 0.0375"
definition UNION_DUES_RATE :: real where "UNION_DUES_RATE = 0.0375"

definition weeksPerYear :: real where "weeksPerYear = 52"

section \<open>Helpers\<close>

text \<open>
  \<^verbatim>\<open>Math.min(remaining, bracket.limit - lastLimit)\<close>. \<open>lastLimit\<close> starts at 0 and
  is overwritten with bracket limits, so it may become \<open>Infinity\<close>. A finite limit minus
  \<open>Infinity\<close> is \<open>-Infinity\<close> and \<open>Infinity - Infinity\<close> is \<open>NaN\<close>; in both
  cases the minimum is not a number greater than 0, and the result is \<open>None\<close>.
\<close>

fun taxableAtThisRate :: "real \<Rightarrow> jsnum \<Rightarrow> jsnum \<Rightarrow> real option" where
  "taxableAtThisRate remaining (Fin l) (Fin lastLimit) = Some (min remaining (l - lastLimit))"
| "taxableAtThisRate remaining Infinity (Fin lastLimit) = Some remaining"
| "taxableAtThisRate remaining (Fin l) Infinity = None"
| "taxableAtThisRate remaining Infinity Infinity = None"

text \<open>The \<^verbatim>\<open>for (const bracket of brackets)\<close> loop, on the state (remaining, lastLimit, tax).\<close>

fun taxLoop :: "real \<Rightarrow> jsnum \<Rightarrow> real \<Rightarrow> bracket list \<Rightarrow> real" where
  "taxLoop remaining lastLimit tax [] = tax"
| "taxLoop remaining lastLimit tax (b # bs) =
     (if remaining \<le> 0 then tax
      else (case taxableAtThisRate remaining (limit b) lastLimit of
              None \<Rightarrow> taxLoop remaining lastLimit tax bs
            | Some t \<Rightarrow>
                if t > 0 then taxLoop (remaining - t) (limit b) (tax + t * rate b) bs
                else taxLoop remaining lastLimit tax bs))"

definition applyProgressiveTax :: "real \<Rightarrow> bracket list \<Rightarrow> real" where
  "applyProgressiveTax annualIncome brackets = taxLoop annualIncome (Fin 0) 0 brackets"

definition clamp :: "real \<Rightarrow> real \<Rightarrow> real \<Rightarrow> real" where
  "clamp v minVal maxVal = max minVal (min maxVal v)"

section \<open>CPP / CPP2 / EI\<close>

text \<open>calculator.js: the test is \<^verbatim>\<open>mode === "early-year"\<close>, every other mode is annualized.\<close>

definition calculateCppEiForWeek :: "real \<Rightarrow> string \<Rightarrow> contributions" where
  "calculateCppEiForWeek taxableWeekly mode =
    (let annualEarnings = taxableWeekly * weeksPerYear in
     if mode = ''early-year'' then
       (let cppEarningsWeekly = max 0 (taxableWeekly - CPP_BASIC_EXEMPTION / weeksPerYear);
            cppWeekly = cppEarningsWeekly * CPP_RATE;
            cppWeeklyMax = CPP_MAX_CONTRIB / weeksPerYear;
            cppWeekly = (if cppWeekly > cppWeeklyMax then cppWeeklyMax else cppWeekly);
            cpp2Weekly =
              (if annualEarnings > CPP_YMPE then
                 (let excessEarningsAnnual = clamp (annualEarnings - CPP_YMPE) 0 (CPP2_YAMPE - CPP_YMPE);
                      cpp2Annual = excessEarningsAnnual * CPP2_RATE;
                      cpp2AnnualCapped = min cpp2Annual CPP2_MAX_CONTRIB
                  in cpp2AnnualCapped / weeksPerYear)
               else 0);
            eiEarningsWeekly = min taxableWeekly (EI_MAX_INSURABLE / weeksPerYear);
            eiWeekly = eiEarningsWeekly * EI_RATE;
            eiWeeklyMax = EI_MAX_CONTRIB / weeksPerYear;
            eiWeekly = (if eiWeekly > eiWeeklyMax then eiWeeklyMax else eiWeekly)
        in \<lparr>cpp = cppWeekly, cpp2 = cpp2Weekly, ei = eiWeekly\<rparr>)
     else
       (let cppPensionableAnnual =
              clamp (annualEarnings - CPP_BASIC_EXEMPTION) 0 (CPP_YMPE - CPP_BASIC_EXEMPTION);
            cppAnnualRaw = cppPensionableAnnual * CPP_RATE;
            cppAnnual = min cppAnnualRaw CPP_MAX_CONTRIB;
            cppWeekly = cppAnnual / weeksPerYear;
            cpp2Weekly =
              (if annualEarnings > CPP_YMPE then
                 (let cpp2BaseAnnual = clamp (annualEarnings - CPP_YMPE) 0 (CPP2_YAMPE - CPP_YMPE);
                      cpp2AnnualRaw = cpp2BaseAnnual * CPP2_RATE;
                      cpp2Annual = min cpp2AnnualRaw CPP2_MAX_CONTRIB
                  in cpp2Annual / weeksPerYear)
               else 0);
            eiInsurableAnnual = min annualEarnings EI_MAX_INSURABLE;
            eiAnnualRaw = eiInsurableAnnual * EI_RATE;
            eiAnnual = min eiAnnualRaw EI_MAX_CONTRIB;
            eiWeekly = eiAnnual / weeksPerYear
        in \<lparr>cpp = cppWeekly, cpp2 = cpp2Weekly, ei = eiWeekly\<rparr>))"

text \<open>part_000: the test is \<^verbatim>\<open>mode === "annualized"\<close>, every other mode is early-year.\<close>

definition calculateCppEiForWeek_alt :: "real \<Rightarrow> string \<Rightarrow> contributions" where
  "calculateCppEiForWeek_alt taxableWeekly mode =
    (let annualEarnings = taxableWeekly * weeksPerYear in
     if mode = ''annualized'' then
       (let cppPensionableAnnual =
              clamp (annualEarnings - CPP_BASIC_EXEMPTION) 0 (CPP_YMPE - CPP_BASIC_EXEMPTION);
            cppAnnualRaw = cppPensionableAnnual * CPP_RATE;
            cppAnnual = min cppAnnualRaw CPP_MAX_CONTRIB;
            cppWeekly = cppAnnual / weeksPerYear;
            cpp2Weekly =
              (if annualEarnings > CPP_YMPE then
                 (let cpp2BaseAnnual = clamp (annualEarnings - CPP_YMPE) 0 (CPP2_YAMPE - CPP_YMPE);
                      cpp2AnnualRaw = cpp2BaseAnnual * CPP2_RATE;
                      cpp2Annual = min cpp2AnnualRaw CPP2_MAX_CONTRIB
                  in cpp2Annual / weeksPerYear)
               else 0);
            eiInsurableAnnual = min annualEarnings EI_MAX_INSURABLE;
            eiAnnualRaw = eiInsurableAnnual * EI_RATE;
            eiAnnual = min eiAnnualRaw EI_MAX_CONTRIB;
            eiWeekly = eiAnnual / weeksPerYear
        in \<lparr>cpp = cppWeekly, cpp2 = cpp2Weekly, ei = eiWeekly\<rparr>)
     else
       (let cppEarningsWeekly = max 0 (taxableWeekly - CPP_BASIC_EXEMPTION / weeksPerYear);
            cppWeeklyRaw = cppEarningsWeekly * CPP_RATE;
            cppWeeklyMax = CPP_MAX_CONTRIB / weeksPerYear;
            cppWeekly = min cppWeeklyRaw cppWeeklyMax;
            cpp2Weekly =
              (if annualEarnings > CPP_YMPE then
                 (let excessEarningsAnnual = clamp (annualEarnings - CPP_YMPE) 0 (CPP2_YAMPE - CPP_YMPE);
                      cpp2Annual = min (excessEarningsAnnual * CPP2_RATE) CPP2_MAX_CONTRIB
                  in cpp2Annual / weeksPerYear)
               else 0);
            eiEarningsWeekly = min taxableWeekly (EI_MAX_INSURABLE / weeksPerYear);
            eiWeeklyRaw = eiEarningsWeekly * EI_RATE;
            eiWeeklyMax = EI_MAX_CONTRIB / weeksPerYear;
            eiWeekly = min eiWeeklyRaw eiWeeklyMax
        in \<lparr>cpp = cppWeekly, cpp2 = cpp2Weekly, ei = eiWeekly\<rparr>))"

section \<open>Federal and Alberta tax\<close>

definition calculateAnnualFederalTaxGross :: "real \<Rightarrow> real" where
  "calculateAnnualFederalTaxGross annualTaxable = applyProgressiveTax annualTaxable FED_BRACKETS_2025"

definition calculateAnnualAlbertaTaxGross :: "real \<Rightarrow> real" where
  "calculateAnnualAlbertaTaxGross annualTaxable = applyProgressiveTax annualTaxable AB_BRACKETS_2025"

text \<open>calculator.js takes the mode as a fourth parameter and never reads it.\<close>

definition calculateIncomeTaxForWeek :: "real \<Rightarrow> real \<Rightarrow> real \<Rightarrow> string \<Rightarrow> incomeTax" where
  "calculateIncomeTaxForWeek taxableWeekly cppWeekly eiWeekly mode =
    (let annualTaxable = taxableWeekly * weeksPerYear;
         cppAnnual = cppWeekly * weeksPerYear;
         eiAnnual = eiWeekly * weeksPerYear;
         federalGrossAnnual = calculateAnnualFederalTaxGross annualTaxable;
         federalCreditAnnual = FED_BPA * FED_CREDIT_RATE + (cppAnnual + eiAnnual) * FED_CREDIT_RATE;
         federalNetAnnual = max 0 (federalGrossAnnual - federalCreditAnnual);
         federalWeekly = federalNetAnnual / weeksPerYear;
         abGrossAnnual = calculateAnnualAlbertaTaxGross annualTaxable;
         abCreditAnnual = AB_BPA * AB_CREDIT_RATE + (cppAnnual + eiAnnual) * AB_CREDIT_RATE;
         abNetAnnual = max 0 (abGrossAnnual - abCreditAnnual);
         abWeekly = abNetAnnual / weeksPerYear
     in \<lparr>federalWeekly = federalWeekly, abWeekly = abWeekly\<rparr>)"

definition calculateIncomeTaxForWeek_alt :: "real \<Rightarrow> real \<Rightarrow> real \<Rightarrow> incomeTax" where
  "calculateIncomeTaxForWeek_alt taxableWeekly cppWeekly eiWeekly =
    (let annualTaxable = taxableWeekly * weeksPerYear;
         cppAnnual = cppWeekly * weeksPerYear;
         eiAnnual = eiWeekly * weeksPerYear;
         federalGrossAnnual = calculateAnnualFederalTaxGross annualTaxable;
         federalCreditAnnual = FED_BPA * FED_CREDIT_RATE + (cppAnnual + eiAnnual) * FED_CREDIT_RATE;
         federalNetAnnual = max 0 (federalGrossAnnual - federalCreditAnnual);
         federalWeekly = federalNetAnnual / weeksPerYear;
         abGrossAnnual = calculateAnnualAlbertaTaxGross annualTaxable;
         abCreditAnnual = AB_BPA * AB_CREDIT_RATE + (cppAnnual + eiAnnual) * AB_CREDIT_RATE;
         abNetAnnual = max 0 (abGrossAnnual - abCreditAnnual);
         abWeekly = abNetAnnual / weeksPerYear
     in \<lparr>federalWeekly = federalWeekly, abWeekly = abWeekly\<rparr>)"

section \<open>Main entry function\<close>

text \<open>\<^verbatim>\<open>a ?? b\<close>: the right operand only when the left one is \<open>null\<close> or \<open>undefined\<close>.\<close>

fun nullish :: "'a js_opt \<Rightarrow> 'a \<Rightarrow> 'a" where
  "nullish Undefined d = d"
| "nullish Null d = d"
| "nullish (Val v) d = v"

text \<open>
  calculator.js, \<^verbatim>\<open>calculateDeductionsForWeek(taxableWeekly, nonTaxableWeekly = 0, options = {})\<close>.
  The third argument is \<open>None\<close> when it is omitted and the default \<open>{}\<close> applies (a
  \<open>null\<close> options argument, on which the property access throws, is not an options
  record and is excluded by the type). A default parameter replaces \<open>undefined\<close> only;
  a \<open>null\<close> \<open>nonTaxableWeekly\<close> reaches the addition, where it converts to 0.
\<close>

definition defaultOptions :: options where
  "defaultOptions = \<lparr>unionDuesRate = Undefined, taxMode = Undefined\<rparr>"

fun nonTaxableAddend :: "real js_opt \<Rightarrow> real" where
  "nonTaxableAddend Undefined = 0"
| "nonTaxableAddend Null = 0"
| "nonTaxableAddend (Val n) = n"

definition calculateDeductionsForWeek :: "real \<Rightarrow> real js_opt \<Rightarrow> options option \<Rightarrow> deductions" where
  "calculateDeductionsForWeek taxableWeekly nonTaxableWeekly options =
    (let opts = (case options of None \<Rightarrow> defaultOptions | Some r \<Rightarrow> r);
         unionDuesRate = nullish (unionDuesRate opts) DEFAULT_UNION_DUES_RATE;
         taxMode = (if taxMode opts = Val ''annualized'' then ''annualized'' else ''early-year'');
         c = calculateCppEiForWeek taxableWeekly taxMode;
         t = calculateIncomeTaxForWeek taxableWeekly (cpp c) (ei c) taxMode;
         unionDues = taxableWeekly * unionDuesRate;
         totalDeductions = cpp c + cpp2 c + ei c + federalWeekly t + abWeekly t + unionDues;
         netTaxableOnly = taxableWeekly - totalDeductions;
         netPayTotal = netTaxableOnly + nonTaxableAddend nonTaxableWeekly
     in \<lparr>cpp = cpp c, cpp2 = cpp2 c, ei = ei c,
         federalTax = federalWeekly t, albertaTax = abWeekly t, unionDues = unionDues,
         totalDeductions = totalDeductions, netTaxableOnly = netTaxableOnly,
         netPayTotal = netPayTotal\<rparr>)"

text \<open>
  part_000, \<^verbatim>\<open>calculateDeductionsForWeek(taxableWeekly, nonTaxableWeekly, taxMode)\<close>.
  \<^verbatim>\<open>(nonTaxableWeekly || 0)\<close> replaces every falsy value by 0: \<open>undefined\<close>,
  \<open>null\<close> and the number 0 itself. The parameter \<open>taxMode\<close> is written
  \<open>taxMode'\<close>, the plain name being the field of the options record.
\<close>

fun orZero :: "real js_opt \<Rightarrow> real" where
  "orZero Undefined = 0"
| "orZero Null = 0"
| "orZero (Val n) = (if n = 0 then 0 else n)"

definition calculateDeductionsForWeek_alt :: "real \<Rightarrow> real js_opt \<Rightarrow> string js_opt \<Rightarrow> deductions" where
  "calculateDeductionsForWeek_alt taxableWeekly nonTaxableWeekly taxMode' =
    (let mode = (if taxMode' = Val ''annualized'' then ''annualized'' else ''early-year'');
         c = calculateCppEiForWeek_alt taxableWeekly mode;
         t = calculateIncomeTaxForWeek_alt taxableWeekly (cpp c) (ei c);
         unionDues = taxableWeekly * UNION_DUES_RATE;
         totalDeductions = cpp c + cpp2 c + ei c + federalWeekly t + abWeekly t + unionDues;
         netTaxableOnly = taxableWeekly - totalDeductions;
         netPayTotal = netTaxableOnly + orZero nonTaxableWeekly
     in \<lparr>cpp = cpp c, cpp2 = cpp2 c, ei = ei c,
         federalTax = federalWeekly t, albertaTax = abWeekly t, unionDues = unionDues,
         totalDeductions = totalDeductions, netTaxableOnly = netTaxableOnly,
         netPayTotal = netPayTotal\<rparr>)"

section \<open>The same code in rounded arithmetic\<close>

text \<open>
  The definitions above read every number as an exact real. The source computes in
  IEEE 754 binary64: every literal is the double nearest to the decimal written, and
  every \<open>+\<close>, \<open>-\<close>, \<open>*\<close>, \<open>/\<close> returns the double nearest to the exact
  result. The definitions of this section are the same code with a rounding function
  \<open>rd\<close> applied to each literal and to the result of each arithmetic operation;
  comparisons, \<open>Math.min\<close> and \<open>Math.max\<close> are exact on doubles. With \<open>rd\<close> the
  identity they are the definitions above; with \<open>rd = double\<close> they are the code as
  it runs.
\<close>

function bitLength :: "int \<Rightarrow> int" where
  "bitLength n = (if n \<le> 0 then 0 else 1 + bitLength (n div 2))"
  by pat_completeness auto
termination
  by (relation "measure nat") auto

declare bitLength.simps [simp del]

text \<open>For \<open>x > 0\<close>, the integer \<open>k\<close> with \<open>2^k \<le> x < 2^(k+1)\<close>.\<close>

definition ilog2 :: "real \<Rightarrow> int" where
  "ilog2 x =
     (if 1 \<le> x then bitLength \<lfloor>x\<rfloor> - 1
      else (let k = bitLength \<lfloor>1 / x\<rfloor>
            in if x * 2 ^ nat (k - 1) = 1 then - (k - 1) else - k))"

definition pow2 :: "int \<Rightarrow> real" where
  "pow2 e = (if 0 \<le> e then 2 ^ nat e else 1 / 2 ^ nat (- e))"

definition roundTiesEven :: "real \<Rightarrow> int" where
  "roundTiesEven r =
     (let f = \<lfloor>r\<rfloor>; d = r - of_int f
      in if d < 1 / 2 then f else if 1 / 2 < d then f + 1 else if even f then f else f + 1)"

text \<open>
  Round to nearest, ties to even, with a 53-bit significand and the exponent of the
  least bit not below \<open>-1074\<close> (subnormal numbers). A result of magnitude \<open>2^1024\<close> or
  more, which is \<open>Infinity\<close> in the source, is not modelled; no amount of this program
  comes near it.
\<close>

definition double :: "real \<Rightarrow> real" where
  "double x =
     (if x = 0 then 0
      else (let a = \<bar>x\<bar>;
                e = max (ilog2 a - 52) (- 1074);
                m = roundTiesEven (a / pow2 e)
            in sgn x * of_int m * pow2 e))"

text \<open>The bracket tables as the doubles their literals denote.\<close>

definition roundBracket :: "(real \<Rightarrow> real) \<Rightarrow> bracket \<Rightarrow> bracket" where
  "roundBracket rd b =
     \<lparr>limit = (case limit b of Fin l \<Rightarrow> Fin (rd l) | Infinity \<Rightarrow> Infinity), rate = rd (rate b)\<rparr>"

fun taxableAtThisRate_rd :: "(real \<Rightarrow> real) \<Rightarrow> real \<Rightarrow> jsnum \<Rightarrow> jsnum \<Rightarrow> real option" where
  "taxableAtThisRate_rd rd remaining (Fin l) (Fin lastLimit) = Some (min remaining (rd (l - lastLimit)))"
| "taxableAtThisRate_rd rd remaining Infinity (Fin lastLimit) = Some remaining"
| "taxableAtThisRate_rd rd remaining (Fin l) Infinity = None"
| "taxableAtThisRate_rd rd remaining Infinity Infinity = None"

fun taxLoop_rd :: "(real \<Rightarrow> real) \<Rightarrow> real \<Rightarrow> jsnum \<Rightarrow> real \<Rightarrow> bracket list \<Rightarrow> real" where
  "taxLoop_rd rd remaining lastLimit tax [] = tax"
| "taxLoop_rd rd remaining lastLimit tax (b # bs) =
     (if remaining \<le> 0 then tax
      else (case taxableAtThisRate_rd rd remaining (limit b) lastLimit of
              None \<Rightarrow> taxLoop_rd rd remaining lastLimit tax bs
            | Some t \<Rightarrow>
                if t > 0
                then taxLoop_rd rd (rd (remaining - t)) (limit b) (rd (tax + rd (t * rate b))) bs
                else taxLoop_rd rd remaining lastLimit tax bs))"

definition applyProgressiveTax_rd :: "(real \<Rightarrow> real) \<Rightarrow> real \<Rightarrow> bracket list \<Rightarrow> real" where
  "applyProgressiveTax_rd rd annualIncome brackets =
     taxLoop_rd rd annualIncome (Fin (rd 0)) (rd 0) (map (roundBracket rd) brackets)"

definition calculateCppEiForWeek_rd :: "(real \<Rightarrow> real) \<Rightarrow> real \<Rightarrow> string \<Rightarrow> contributions" where
  "calculateCppEiForWeek_rd rd taxableWeekly mode =
    (let weeksPerYear = rd 52;
         annualEarnings = rd (taxableWeekly * weeksPerYear) in
     if mode = ''early-year'' then
       (let cppEarningsWeekly =
              max (rd 0) (rd (taxableWeekly - rd (rd CPP_BASIC_EXEMPTION / weeksPerYear)));
            cppWeekly = rd (cppEarningsWeekly * rd CPP_RATE);
            cppWeeklyMax = rd (rd CPP_MAX_CONTRIB / weeksPerYear);
            cppWeekly = (if cppWeekly > cppWeeklyMax then cppWeeklyMax else cppWeekly);
            cpp2Weekly =
              (if annualEarnings > rd CPP_YMPE then
                 (let excessEarningsAnnual =
                        clamp (rd (annualEarnings - rd CPP_YMPE)) (rd 0) (rd (rd CPP2_YAMPE - rd CPP_YMPE));
                      cpp2Annual = rd (excessEarningsAnnual * rd CPP2_RATE);
                      cpp2AnnualCapped = min cpp2Annual (rd CPP2_MAX_CONTRIB)
                  in rd (cpp2AnnualCapped / weeksPerYear))
               else rd 0);
            eiEarningsWeekly = min taxableWeekly (rd (rd EI_MAX_INSURABLE / weeksPerYear));
            eiWeekly = rd (eiEarningsWeekly * rd EI_RATE);
            eiWeeklyMax = rd (rd EI_MAX_CONTRIB / weeksPerYear);
            eiWeekly = (if eiWeekly > eiWeeklyMax then eiWeeklyMax else eiWeekly)
        in \<lparr>cpp = cppWeekly, cpp2 = cpp2Weekly, ei = eiWeekly\<rparr>)
     else
       (let cppPensionableAnnual =
              clamp (rd (annualEarnings - rd CPP_BASIC_EXEMPTION)) (rd 0)
                (rd (rd CPP_YMPE - rd CPP_BASIC_EXEMPTION));
            cppAnnualRaw = rd (cppPensionableAnnual * rd CPP_RATE);
            cppAnnual = min cppAnnualRaw (rd CPP_MAX_CONTRIB);
            cppWeekly = rd (cppAnnual / weeksPerYear);
            cpp2Weekly =
              (if annualEarnings > rd CPP_YMPE then
                 (let cpp2BaseAnnual =
                        clamp (rd (annualEarnings - rd CPP_YMPE)) (rd 0) (rd (rd CPP2_YAMPE - rd CPP_YMPE));
                      cpp2AnnualRaw = rd (cpp2BaseAnnual * rd CPP2_RATE);
                      cpp2Annual = min cpp2AnnualRaw (rd CPP2_MAX_CONTRIB)
                  in rd (cpp2Annual / weeksPerYear))
               else rd 0);
            eiInsurableAnnual = min annualEarnings (rd EI_MAX_INSURABLE);
            eiAnnualRaw = rd (eiInsurableAnnual * rd EI_RATE);
            eiAnnual = min eiAnnualRaw (rd EI_MAX_CONTRIB);
            eiWeekly = rd (eiAnnual / weeksPerYear)
        in \<lparr>cpp = cppWeekly, cpp2 = cpp2Weekly, ei = eiWeekly\<rparr>))"

definition calculateCppEiForWeek_alt_rd :: "(real \<Rightarrow> real) \<Rightarrow> real \<Rightarrow> string \<Rightarrow> contributions" where
  "calculateCppEiForWeek_alt_rd rd taxableWeekly mode =
    (let weeksPerYear = rd 52;
         annualEarnings = rd (taxableWeekly * weeksPerYear) in
     if mode = ''annualized'' then
       (let cppPensionableAnnual =
              clamp (rd (annualEarnings - rd CPP_BASIC_EXEMPTION)) (rd 0)
                (rd (rd CPP_YMPE - rd CPP_BASIC_EXEMPTION));
            cppAnnualRaw = rd (cppPensionableAnnual * rd CPP_RATE);
            cppAnnual = min cppAnnualRaw (rd CPP_MAX_CONTRIB);
            cppWeekly = rd (cppAnnual / weeksPerYear);
            cpp2Weekly =
              (if annualEarnings > rd CPP_YMPE then
                 (let cpp2BaseAnnual =
                        clamp (rd (annualEarnings - rd CPP_YMPE)) (rd 0) (rd (rd CPP2_YAMPE - rd CPP_YMPE));
                      cpp2AnnualRaw = rd (cpp2BaseAnnual * rd CPP2_RATE);
                      cpp2Annual = min cpp2AnnualRaw (rd CPP2_MAX_CONTRIB)
                  in rd (cpp2Annual / weeksPerYear))
               else rd 0);
            eiInsurableAnnual = min annualEarnings (rd EI_MAX_INSURABLE);
            eiAnnualRaw = rd (eiInsurableAnnual * rd EI_RATE);
            eiAnnual = min eiAnnualRaw (rd EI_MAX_CONTRIB);
            eiWeekly = rd (eiAnnual / weeksPerYear)
        in \<lparr>cpp = cppWeekly, cpp2 = cpp2Weekly, ei = eiWeekly\<rparr>)
     else
       (let cppEarningsWeekly =
              max (rd 0) (rd (taxableWeekly - rd (rd CPP_BASIC_EXEMPTION / weeksPerYear)));
            cppWeeklyRaw = rd (cppEarningsWeekly * rd CPP_RATE);
            cppWeeklyMax = rd (rd CPP_MAX_CONTRIB / weeksPerYear);
            cppWeekly = min cppWeeklyRaw cppWeeklyMax;
            cpp2Weekly =
              (if annualEarnings > rd CPP_YMPE then
                 (let excessEarningsAnnual =
                        clamp (rd (annualEarnings - rd CPP_YMPE)) (rd 0) (rd (rd CPP2_YAMPE - rd CPP_YMPE));
                      cpp2Annual = min (rd (excessEarningsAnnual * rd CPP2_RATE)) (rd CPP2_MAX_CONTRIB)
                  in rd (cpp2Annual / weeksPerYear))
               else rd 0);
            eiEarningsWeekly = min taxableWeekly (rd (rd EI_MAX_INSURABLE / weeksPerYear));
            eiWeeklyRaw = rd (eiEarningsWeekly * rd EI_RATE);
            eiWeeklyMax = rd (rd EI_MAX_CONTRIB / weeksPerYear);
            eiWeekly = min eiWeeklyRaw eiWeeklyMax
        in \<lparr>cpp = cppWeekly, cpp2 = cpp2Weekly, ei = eiWeekly\<rparr>))"

text \<open>
  One definition serves both files here: the body of \<open>calculateIncomeTaxForWeek\<close> is the
  same in part_000, and the mode parameter of calculator.js is never read.
\<close>

definition calculateIncomeTaxForWeek_rd :: "(real \<Rightarrow> real) \<Rightarrow> real \<Rightarrow> real \<Rightarrow> real \<Rightarrow> incomeTax" where
  "calculateIncomeTaxForWeek_rd rd taxableWeekly cppWeekly eiWeekly =
    (let weeksPerYear = rd 52;
         annualTaxable = rd (taxableWeekly * weeksPerYear);
         cppAnnual = rd (cppWeekly * weeksPerYear);
         eiAnnual = rd (eiWeekly * weeksPerYear);
         federalGrossAnnual = applyProgressiveTax_rd rd annualTaxable FED_BRACKETS_2025;
         federalCreditAnnual =
           rd (rd (rd FED_BPA * rd FED_CREDIT_RATE) + rd (rd (cppAnnual + eiAnnual) * rd FED_CREDIT_RATE));
         federalNetAnnual = max (rd 0) (rd (federalGrossAnnual - federalCreditAnnual));
         federalWeekly = rd (federalNetAnnual / weeksPerYear);
         abGrossAnnual = applyProgressiveTax_rd rd annualTaxable AB_BRACKETS_2025;
         abCreditAnnual =
           rd (rd (rd AB_BPA * rd AB_CREDIT_RATE) + rd (rd (cppAnnual + eiAnnual) * rd AB_CREDIT_RATE));
         abNetAnnual = max (rd 0) (rd (abGrossAnnual - abCreditAnnual));
         abWeekly = rd (abNetAnnual / weeksPerYear)
     in \<lparr>federalWeekly = federalWeekly, abWeekly = abWeekly\<rparr>)"

text \<open>
  The orchestrators. The sum of the six deductions is evaluated from the left, one
  rounded addition after the other; the default parameter \<open>nonTaxableWeekly = 0\<close>, a
  \<open>null\<close> that converts to 0 and \<open>|| 0\<close> supply the double 0.
\<close>

definition calculateDeductionsForWeek_rd ::
    "(real \<Rightarrow> real) \<Rightarrow> real \<Rightarrow> real js_opt \<Rightarrow> options option \<Rightarrow> deductions" where
  "calculateDeductionsForWeek_rd rd taxableWeekly nonTaxableWeekly options =
    (let opts = (case options of None \<Rightarrow> defaultOptions | Some r \<Rightarrow> r);
         unionDuesRate = nullish (unionDuesRate opts) (rd DEFAULT_UNION_DUES_RATE);
         taxMode = (if taxMode opts = Val ''annualized'' then ''annualized'' else ''early-year'');
         c = calculateCppEiForWeek_rd rd taxableWeekly taxMode;
         t = calculateIncomeTaxForWeek_rd rd taxableWeekly (cpp c) (ei c);
         unionDues = rd (taxableWeekly * unionDuesRate);
         totalDeductions =
           rd (rd (rd (rd (rd (cpp c + cpp2 c) + ei c) + federalWeekly t) + abWeekly t) + unionDues);
         netTaxableOnly = rd (taxableWeekly - totalDeductions);
         netPayTotal = rd (netTaxableOnly + nonTaxableAddend nonTaxableWeekly)
     in \<lparr>cpp = cpp c, cpp2 = cpp2 c, ei = ei c,
         federalTax = federalWeekly t, albertaTax = abWeekly t, unionDues = unionDues,
         totalDeductions = totalDeductions, netTaxableOnly = netTaxableOnly,
         netPayTotal = netPayTotal\<rparr>)"

definition calculateDeductionsForWeek_alt_rd ::
    "(real \<Rightarrow> real) \<Rightarrow> real \<Rightarrow> real js_opt \<Rightarrow> string js_opt \<Rightarrow> deductions" where
  "calculateDeductionsForWeek_alt_rd rd taxableWeekly nonTaxableWeekly taxMode' =
    (let mode = (if taxMode' = Val ''annualized'' then ''annualized'' else ''early-year'');
         c = calculateCppEiForWeek_alt_rd rd taxableWeekly mode;
         t = calculateIncomeTaxForWeek_rd rd taxableWeekly (cpp c) (ei c);
         unionDues = rd (taxableWeekly * rd UNION_DUES_RATE);
         totalDeductions =
           rd (rd (rd (rd (rd (cpp c + cpp2 c) + ei c) + federalWeekly t) + abWeekly t) + unionDues);
         netTaxableOnly = rd (taxableWeekly - totalDeductions);
         netPayTotal = rd (netTaxableOnly + orZero nonTaxableWeekly)
     in \<lparr>cpp = cpp c, cpp2 = cpp2 c, ei = ei c,
         federalTax = federalWeekly t, albertaTax = abWeekly t, unionDues = unionDues,
         totalDeductions = totalDeductions, netTaxableOnly = netTaxableOnly,
         netPayTotal = netPayTotal\<rparr>)"

section \<open>Monotonicity\<close>

lemmas cdefs = CPP_RATE_def CPP_YMPE_def CPP_BASIC_EXEMPTION_def CPP_MAX_CONTRIB_def
  CPP2_RATE_def CPP2_YAMPE_def CPP2_MAX_CONTRIB_def EI_RATE_def EI_MAX_INSURABLE_def
  EI_MAX_CONTRIB_def weeksPerYear_def
















lemmas tdefs = FED_BPA_def FED_CREDIT_RATE_def AB_BPA_def AB_CREDIT_RATE_def weeksPerYear_def





section \<open>Agreement of the two engines\<close>



section \<open>Sample evaluations\<close>

text \<open>
  The bracket loop at an income in the second federal bracket, at one in the unbounded
  Alberta bracket and at a negative income; and the week of 1500 taxable and 100
  non-taxable earnings in early-year mode, where tier 1 and the insurance premium are
  at their weekly caps.
\<close>

lemma applyProgressiveTax_samples:
  "applyProgressiveTax 100000 FED_BRACKETS_2025 = 57375 * 0.15 + (100000 - 57375) * 0.205"
  "applyProgressiveTax 400000 AB_BRACKETS_2025 = 47911.16"
  "applyProgressiveTax (- 5) FED_BRACKETS_2025 = 0"
  by (simp_all add: applyProgressiveTax_def FED_BRACKETS_2025_def AB_BRACKETS_2025_def)

lemma calculateDeductionsForWeek_sample:
  "calculateDeductionsForWeek 1500 (Val 100) None =
     \<lparr>cpp = 4034.10 / 52, cpp2 = 268 / 52, ei = 1077.48 / 52,
      federalTax = 97544909 / 520000, albertaTax = 2753271 / 32500, unionDues = 56.25,
      totalDeductions = 44928609 / 104000, netTaxableOnly = 111071391 / 104000,
      netPayTotal = 121471391 / 104000\<rparr>"
  by (simp add: calculateDeductionsForWeek_def calculateIncomeTaxForWeek_def
        calculateCppEiForWeek_def calculateAnnualFederalTaxGross_def
        calculateAnnualAlbertaTaxGross_def applyProgressiveTax_def FED_BRACKETS_2025_def
        AB_BRACKETS_2025_def defaultOptions_def DEFAULT_UNION_DUES_RATE_def clamp_def
        Let_def cdefs tdefs)

section \<open>Exact arithmetic as an instance\<close>










section \<open>Evaluating the rounded code\<close>

text \<open>
  Rules for the simplifier to run the rounded code on numerals, innermost first: with
  the congruence rule \<open>let_weak_cong\<close> a \<open>let\<close> is opened when the bound value has
  been computed.
\<close>

lemma bitLength_numeral: "bitLength (numeral n) = 1 + bitLength (numeral n div 2)"
  by (subst bitLength.simps) simp

lemma bitLength_0: "bitLength 0 = 0"
  by (subst bitLength.simps) simp

lemma bitLength_1: "bitLength 1 = 1"
  by (subst bitLength.simps) (simp add: bitLength_0)

lemma Let_frac: "Let (numeral a / numeral b :: real) f = f (numeral a / numeral b)"
  by (simp only: Let_def)

lemma Let_neg_frac: "Let (- (numeral a / numeral b) :: real) f = f (- (numeral a / numeral b))"
  by (simp only: Let_def)

lemma Let_contributions: "Let \<lparr>cpp = a, cpp2 = b, ei = c\<rparr> f = f \<lparr>cpp = a, cpp2 = b, ei = c\<rparr>"
  by (simp only: Let_def)

lemma Let_incomeTax: "Let \<lparr>federalWeekly = a, abWeekly = b\<rparr> f = f \<lparr>federalWeekly = a, abWeekly = b\<rparr>"
  by (simp only: Let_def)

lemma Let_string: "Let (c # cs :: string) f = f (c # cs)"
  by (simp only: Let_def)

lemma Let_options: "Let \<lparr>unionDuesRate = a, taxMode = b\<rparr> f = f \<lparr>unionDuesRate = a, taxMode = b\<rparr>"
  by (simp only: Let_def)

lemmas double_cbv = double_def ilog2_def pow2_def roundTiesEven_def
  bitLength_numeral bitLength_0 bitLength_1 Let_frac Let_neg_frac

lemmas pipeline_cbv = Let_contributions Let_incomeTax Let_string Let_options
  calculateDeductionsForWeek_rd_def calculateDeductionsForWeek_alt_rd_def
  calculateIncomeTaxForWeek_rd_def calculateCppEiForWeek_rd_def calculateCppEiForWeek_alt_rd_def
  applyProgressiveTax_rd_def roundBracket_def FED_BRACKETS_2025_def AB_BRACKETS_2025_def
  FED_BPA_def FED_CREDIT_RATE_def AB_BPA_def AB_CREDIT_RATE_def
  DEFAULT_UNION_DUES_RATE_def UNION_DUES_RATE_def defaultOptions_def
  CPP_RATE_def CPP_YMPE_def CPP_BASIC_EXEMPTION_def CPP_MAX_CONTRIB_def
  CPP2_RATE_def CPP2_YAMPE_def CPP2_MAX_CONTRIB_def EI_RATE_def EI_MAX_INSURABLE_def
  EI_MAX_CONTRIB_def clamp_def

text \<open>
  The literals of the source as doubles: a decimal fraction such as \<open>0.0595\<close> is not
  a double and is read as its neighbour, the whole numbers are doubles.
\<close>

lemma double_literals:
  "double 0.0595 = 535928355657089 / 9007199254740992"
  "double 0.0375 = 5404319552844595 / 144115188075855872"
  "double 52 = 52"
  "double 4034.10 = 8871079715222323 / 2199023255552"
  by (simp_all add: double_cbv cong: let_weak_cong)

text \<open>
  Tier 1 at 100 a week: the early-year branch returns 1.9451923076923077 and the
  annualized branch 1.9451923076923074, in both files.
\<close>

lemma cpp_100_early_year:
  "cpp (calculateCppEiForWeek_rd double 100 ''early-year'') = 1095045919010879 / 562949953421312"
  "cpp (calculateCppEiForWeek_alt_rd double 100 ''early-year'') = 1095045919010879 / 562949953421312"
  by (simp_all add: double_cbv pipeline_cbv cong: let_weak_cong)

lemma cpp_100_annualized:
  "cpp (calculateCppEiForWeek_rd double 100 ''annualized'') = 8760367352087031 / 4503599627370496"
  "cpp (calculateCppEiForWeek_alt_rd double 100 ''annualized'') = 8760367352087031 / 4503599627370496"
  by (simp_all add: double_cbv pipeline_cbv cong: let_weak_cong)





text \<open>
  1500 a week with 1000 and with 1 of non-taxable earnings: the code returns
  \<open>netPayTotal\<close> 2067.994144230769 and 1068.9941442307693.
\<close>

lemma netPayTotal_1500:
  "netPayTotal (calculateDeductionsForWeek_rd double 1500 (Val 1000) None)
     = 2273783607754409 / 1099511627776"
  "netPayTotal (calculateDeductionsForWeek_rd double 1500 (Val 1) None)
     = 4701485966424741 / 4398046511104"
  by (simp_all add: double_cbv pipeline_cbv cong: let_weak_cong)

lemma netPayTotal_alt_1500:
  "netPayTotal (calculateDeductionsForWeek_alt_rd double 1500 (Val 1000) Undefined)
     = 2273783607754409 / 1099511627776"
  "netPayTotal (calculateDeductionsForWeek_alt_rd double 1500 (Val 1) Undefined)
     = 4701485966424741 / 4398046511104"
  by (simp_all add: double_cbv pipeline_cbv cong: let_weak_cong)

section \<open>Claims\<close>

text \<open>
  C1. For every real \<open>taxableWeekly\<close> and every mode string (so in early-year and in
  annualized mode), in both engines, the three contributions of
  \<open>calculateCppEiForWeek\<close> are at most \<open>4034.10/52\<close>, \<open>396.00/52\<close> and
  \<open>1077.48/52\<close>; and from \<open>taxableWeekly = 81200/52\<close> on each of them equals its
  weekly cap.
\<close>

theorem contributions_capped:
  "(CPP_MAX_CONTRIB, CPP2_MAX_CONTRIB, EI_MAX_CONTRIB) = (4034.10, 396.00, 1077.48)
   \<and> (cpp (calculateCppEiForWeek t m) \<le> 4034.10 / 52
      \<and> cpp2 (calculateCppEiForWeek t m) \<le> 396.00 / 52
      \<and> ei (calculateCppEiForWeek t m) \<le> 1077.48 / 52)
   \<and> (cpp (calculateCppEiForWeek_alt t m) \<le> 4034.10 / 52
      \<and> cpp2 (calculateCppEiForWeek_alt t m) \<le> 396.00 / 52
      \<and> ei (calculateCppEiForWeek_alt t m) \<le> 1077.48 / 52)
   \<and> (81200 / 52 \<le> t \<longrightarrow>
        calculateCppEiForWeek t m = \<lparr>cpp = 4034.10 / 52, cpp2 = 396.00 / 52, ei = 1077.48 / 52\<rparr>
      \<and> calculateCppEiForWeek_alt t m = \<lparr>cpp = 4034.10 / 52, cpp2 = 396.00 / 52, ei = 1077.48 / 52\<rparr>)"
proof (intro conjI impI)
  show "(CPP_MAX_CONTRIB, CPP2_MAX_CONTRIB, EI_MAX_CONTRIB) = (4034.10, 396.00, 1077.48)"
    by (simp add: cdefs)
  show "cpp (calculateCppEiForWeek t m) \<le> 4034.10 / 52"
    by (simp add: calculateCppEiForWeek_def Let_def cdefs clamp_def min_def max_def)
  show "cpp2 (calculateCppEiForWeek t m) \<le> 396.00 / 52"
    by (simp add: calculateCppEiForWeek_def Let_def cdefs clamp_def min_def max_def)
  show "ei (calculateCppEiForWeek t m) \<le> 1077.48 / 52"
    by (simp add: calculateCppEiForWeek_def Let_def cdefs clamp_def min_def max_def)
  show "cpp (calculateCppEiForWeek_alt t m) \<le> 4034.10 / 52"
    by (simp add: calculateCppEiForWeek_alt_def Let_def cdefs clamp_def min_def max_def)
  show "cpp2 (calculateCppEiForWeek_alt t m) \<le> 396.00 / 52"
    by (simp add: calculateCppEiForWeek_alt_def Let_def cdefs clamp_def min_def max_def)
  show "ei (calculateCppEiForWeek_alt t m) \<le> 1077.48 / 52"
    by (simp add: calculateCppEiForWeek_alt_def Let_def cdefs clamp_def min_def max_def)
next
  assume "81200 / 52 \<le> t"
  then show "calculateCppEiForWeek t m = \<lparr>cpp = 4034.10 / 52, cpp2 = 396.00 / 52, ei = 1077.48 / 52\<rparr>"
    by (simp add: calculateCppEiForWeek_def Let_def cdefs clamp_def min_def max_def)
next
  assume "81200 / 52 \<le> t"
  then show "calculateCppEiForWeek_alt t m = \<lparr>cpp = 4034.10 / 52, cpp2 = 396.00 / 52, ei = 1077.48 / 52\<rparr>"
    by (simp add: calculateCppEiForWeek_alt_def Let_def cdefs clamp_def min_def max_def)
qed

theorem contributions_capped_witness:
  "(81200 / 52 \<le> (100000 :: real))
   \<and> calculateCppEiForWeek 100000 ''early-year'' = \<lparr>cpp = 4034.10 / 52, cpp2 = 396.00 / 52, ei = 1077.48 / 52\<rparr>
   \<and> calculateCppEiForWeek 100000 ''annualized'' = \<lparr>cpp = 4034.10 / 52, cpp2 = 396.00 / 52, ei = 1077.48 / 52\<rparr>"
  using contributions_capped [of 100000 "''early-year''"]
    contributions_capped [of 100000 "''annualized''"]
  by simp

text \<open>
  C2. In both engines, for every \<open>taxableWeekly\<close>, every numeric \<open>nonTaxableWeekly\<close>
  and every mode or options argument, \<open>netPayTotal\<close> is \<open>taxableWeekly\<close> minus the
  sum of the six deduction fields plus \<open>nonTaxableWeekly\<close>, and \<open>totalDeductions\<close> is
  that sum. With \<open>nonTaxableWeekly\<close> missing, the addend is zero.
\<close>

theorem net_pay_identity:
  "(let r = calculateDeductionsForWeek t (Val n) opts in
      netPayTotal r = t - (cpp r + cpp2 r + ei r + federalTax r + albertaTax r + unionDues r) + n
      \<and> totalDeductions r = cpp r + cpp2 r + ei r + federalTax r + albertaTax r + unionDues r)
   \<and> (let r = calculateDeductionsForWeek_alt t (Val n) m in
      netPayTotal r = t - (cpp r + cpp2 r + ei r + federalTax r + albertaTax r + unionDues r) + n
      \<and> totalDeductions r = cpp r + cpp2 r + ei r + federalTax r + albertaTax r + unionDues r)
   \<and> (let r = calculateDeductionsForWeek t Undefined opts in
      netPayTotal r = t - (cpp r + cpp2 r + ei r + federalTax r + albertaTax r + unionDues r) + 0)
   \<and> (let r = calculateDeductionsForWeek_alt t Undefined m in
      netPayTotal r = t - (cpp r + cpp2 r + ei r + federalTax r + albertaTax r + unionDues r) + 0)"
  by (simp add: calculateDeductionsForWeek_def calculateDeductionsForWeek_alt_def Let_def)

text \<open>
  C3. The federal and the provincial weekly tax of the income tax calculator are never
  negative, in both engines, for every \<open>taxableWeekly\<close> and all credit inputs (that
  the inputs are non-negative is not needed). With \<open>taxableWeekly = 100\<close> the
  orchestrator of both engines returns \<open>federalTax = 0\<close> and \<open>albertaTax = 0\<close>,
  in every mode.
\<close>

theorem income_tax_nonneg:
  "(0 \<le> federalWeekly (calculateIncomeTaxForWeek t c e m)
      \<and> 0 \<le> abWeekly (calculateIncomeTaxForWeek t c e m))
   \<and> (0 \<le> federalWeekly (calculateIncomeTaxForWeek_alt t c e)
      \<and> 0 \<le> abWeekly (calculateIncomeTaxForWeek_alt t c e))
   \<and> (federalTax (calculateDeductionsForWeek 100 n opts) = 0
      \<and> albertaTax (calculateDeductionsForWeek 100 n opts) = 0)
   \<and> (federalTax (calculateDeductionsForWeek_alt 100 n tm) = 0
      \<and> albertaTax (calculateDeductionsForWeek_alt 100 n tm) = 0)"
proof -
  have nonneg: "0 \<le> federalWeekly (calculateIncomeTaxForWeek t c e m)"
      "0 \<le> abWeekly (calculateIncomeTaxForWeek t c e m)"
      "0 \<le> federalWeekly (calculateIncomeTaxForWeek_alt t c e)"
      "0 \<le> abWeekly (calculateIncomeTaxForWeek_alt t c e)"
    by (simp_all add: calculateIncomeTaxForWeek_def calculateIncomeTaxForWeek_alt_def Let_def
          weeksPerYear_def)
  have fed: "calculateAnnualFederalTaxGross 5200 = 780"
    by (simp add: calculateAnnualFederalTaxGross_def applyProgressiveTax_def FED_BRACKETS_2025_def)
  have ab: "calculateAnnualAlbertaTaxGross 5200 = 416"
    by (simp add: calculateAnnualAlbertaTaxGross_def applyProgressiveTax_def AB_BRACKETS_2025_def)
  have c: "0 \<le> cpp (calculateCppEiForWeek 100 k)" "0 \<le> ei (calculateCppEiForWeek 100 k)"
      "0 \<le> cpp (calculateCppEiForWeek_alt 100 k)" "0 \<le> ei (calculateCppEiForWeek_alt 100 k)" for k
    by (simp_all add: calculateCppEiForWeek_def calculateCppEiForWeek_alt_def Let_def cdefs
          clamp_def)
  have zero: "federalWeekly (calculateIncomeTaxForWeek 100 x y k) = 0"
      "abWeekly (calculateIncomeTaxForWeek 100 x y k) = 0"
      "federalWeekly (calculateIncomeTaxForWeek_alt 100 x y) = 0"
      "abWeekly (calculateIncomeTaxForWeek_alt 100 x y) = 0"
    if "0 \<le> x" "0 \<le> y" for x y k
    using that
    by (simp_all add: calculateIncomeTaxForWeek_def calculateIncomeTaxForWeek_alt_def Let_def
          tdefs fed ab max_def add_divide_distrib)
  have "federalTax (calculateDeductionsForWeek 100 n opts) = 0"
      "albertaTax (calculateDeductionsForWeek 100 n opts) = 0"
    by (simp_all add: calculateDeductionsForWeek_def Let_def zero c)
  moreover have "federalTax (calculateDeductionsForWeek_alt 100 n tm) = 0"
      "albertaTax (calculateDeductionsForWeek_alt 100 n tm) = 0"
    by (simp_all add: calculateDeductionsForWeek_alt_def Let_def zero c)
  ultimately show ?thesis using nonneg by simp
qed




text \<open>
  C5. For every \<open>taxableWeekly\<close> and credit inputs \<open>tier1Weekly\<close> and
  \<open>insuranceWeekly\<close>, each authority's weekly tax is
  \<open>max(0, progressiveTax(taxableWeekly*52, schedule) - (BPA*rate + (tier1Weekly*52 +
  insuranceWeekly*52)*rate)) / 52\<close> with that authority's schedule, basic personal amount
  and credit rate, in both engines; and the orchestrators' \<open>federalTax\<close> and
  \<open>albertaTax\<close> are this formula at the \<open>cpp\<close> and \<open>ei\<close> fields of the same
  record, so \<open>cpp2\<close> does not enter.
\<close>

theorem income_tax_formula:
  "(federalWeekly (calculateIncomeTaxForWeek t c e m) =
      max 0 (applyProgressiveTax (t * 52) FED_BRACKETS_2025
             - (FED_BPA * FED_CREDIT_RATE + (c * 52 + e * 52) * FED_CREDIT_RATE)) / 52
    \<and> abWeekly (calculateIncomeTaxForWeek t c e m) =
      max 0 (applyProgressiveTax (t * 52) AB_BRACKETS_2025
             - (AB_BPA * AB_CREDIT_RATE + (c * 52 + e * 52) * AB_CREDIT_RATE)) / 52)
   \<and> calculateIncomeTaxForWeek_alt t c e = calculateIncomeTaxForWeek t c e m
   \<and> (let r = calculateDeductionsForWeek t n opts in
        federalTax r =
          max 0 (applyProgressiveTax (t * 52) FED_BRACKETS_2025
                 - (FED_BPA * FED_CREDIT_RATE + (cpp r * 52 + ei r * 52) * FED_CREDIT_RATE)) / 52
      \<and> albertaTax r =
          max 0 (applyProgressiveTax (t * 52) AB_BRACKETS_2025
                 - (AB_BPA * AB_CREDIT_RATE + (cpp r * 52 + ei r * 52) * AB_CREDIT_RATE)) / 52)
   \<and> (let r = calculateDeductionsForWeek_alt t n tm in
        federalTax r =
          max 0 (applyProgressiveTax (t * 52) FED_BRACKETS_2025
                 - (FED_BPA * FED_CREDIT_RATE + (cpp r * 52 + ei r * 52) * FED_CREDIT_RATE)) / 52
      \<and> albertaTax r =
          max 0 (applyProgressiveTax (t * 52) AB_BRACKETS_2025
                 - (AB_BPA * AB_CREDIT_RATE + (cpp r * 52 + ei r * 52) * AB_CREDIT_RATE)) / 52)"
  by (simp add: calculateDeductionsForWeek_def calculateDeductionsForWeek_alt_def
        calculateIncomeTaxForWeek_def calculateIncomeTaxForWeek_alt_def
        calculateAnnualFederalTaxGross_def calculateAnnualAlbertaTaxGross_def
        Let_def weeksPerYear_def)

text \<open>
  C6. The tier-2 contribution of \<open>calculateCppEiForWeek\<close> is the same in early-year
  and in annualized mode, in both engines: for every mode string it is
  \<open>min(clamp(taxableWeekly*52 - 71300, 0, 81200 - 71300) * 0.04, 396.00) / 52\<close> when
  \<open>taxableWeekly*52 > 71300\<close>, and 0 otherwise.
\<close>

theorem cpp2_mode_independent:
  "cpp2 (calculateCppEiForWeek t ''early-year'') = cpp2 (calculateCppEiForWeek t ''annualized'')
   \<and> cpp2 (calculateCppEiForWeek_alt t ''early-year'') = cpp2 (calculateCppEiForWeek_alt t ''annualized'')
   \<and> cpp2 (calculateCppEiForWeek t m) =
        (if t * 52 > 71300 then min (clamp (t * 52 - 71300) 0 (81200 - 71300) * 0.04) 396.00 / 52 else 0)
   \<and> cpp2 (calculateCppEiForWeek_alt t m) =
        (if t * 52 > 71300 then min (clamp (t * 52 - 71300) 0 (81200 - 71300) * 0.04) 396.00 / 52 else 0)"
  by (simp add: calculateCppEiForWeek_def calculateCppEiForWeek_alt_def Let_def cdefs)

text \<open>
  C7. A call with the mode omitted, or with any mode other than \<open>"annualized"\<close>,
  returns the record of the call with \<open>"early-year"\<close>. In part_000 the mode is the third
  argument; in calculator.js it is the \<open>taxMode\<close> option, and the options argument
  itself may be omitted. This is proved of the rounded code for every rounding function
  \<open>rd\<close>, so of the code as it runs (\<open>rd = double\<close>), where the early-year and the
  annualized branch return different doubles (\<open>cpp_100_early_year\<close>,
  \<open>cpp_100_annualized\<close>), and of the exact reading (\<open>rd\<close> the identity).
\<close>

theorem mode_default:
  "(tm \<noteq> Val ''annualized'' \<longrightarrow>
      calculateDeductionsForWeek_alt_rd rd t n tm
        = calculateDeductionsForWeek_alt_rd rd t n (Val ''early-year''))
   \<and> (taxMode opts \<noteq> Val ''annualized'' \<longrightarrow>
      calculateDeductionsForWeek_rd rd t n (Some opts)
        = calculateDeductionsForWeek_rd rd t n (Some (opts\<lparr>taxMode := Val ''early-year''\<rparr>)))
   \<and> calculateDeductionsForWeek_rd rd t n None
        = calculateDeductionsForWeek_rd rd t n
            (Some \<lparr>unionDuesRate = Undefined, taxMode = Val ''early-year''\<rparr>)"
  by (simp add: calculateDeductionsForWeek_rd_def calculateDeductionsForWeek_alt_rd_def Let_def
        defaultOptions_def)

text \<open>
  At 100 a week an unrecognized mode and a missing mode give the early-year tier 1,
  1.9451923076923077, which is not the annualized one.
\<close>

theorem mode_default_witness:
  "Val ''monthly'' \<noteq> Val ''annualized''
   \<and> (Undefined :: string js_opt) \<noteq> Val ''annualized''
   \<and> calculateDeductionsForWeek_alt_rd double 100 (Val 0) (Val ''monthly'')
       = calculateDeductionsForWeek_alt_rd double 100 (Val 0) (Val ''early-year'')
   \<and> calculateDeductionsForWeek_rd double 100 (Val 0) (Some \<lparr>unionDuesRate = Val 0.05, taxMode = Undefined\<rparr>)
       = calculateDeductionsForWeek_rd double 100 (Val 0)
           (Some \<lparr>unionDuesRate = Val 0.05, taxMode = Val ''early-year''\<rparr>)
   \<and> cpp (calculateDeductionsForWeek_rd double 100 (Val 0) (Some \<lparr>unionDuesRate = Val 0.05, taxMode = Undefined\<rparr>))
       = 1095045919010879 / 562949953421312
   \<and> cpp (calculateDeductionsForWeek_rd double 100 (Val 0)
           (Some \<lparr>unionDuesRate = Val 0.05, taxMode = Val ''annualized''\<rparr>))
       = 8760367352087031 / 4503599627370496"
proof -
  have early: "cpp (calculateDeductionsForWeek_rd double 100 (Val 0)
        (Some \<lparr>unionDuesRate = Val 0.05, taxMode = Val ''early-year''\<rparr>))
      = 1095045919010879 / 562949953421312"
    by (simp add: calculateDeductionsForWeek_rd_def Let_def cpp_100_early_year)
  have annualized: "cpp (calculateDeductionsForWeek_rd double 100 (Val 0)
        (Some \<lparr>unionDuesRate = Val 0.05, taxMode = Val ''annualized''\<rparr>))
      = 8760367352087031 / 4503599627370496"
    by (simp add: calculateDeductionsForWeek_rd_def Let_def cpp_100_annualized)
  show ?thesis
    using mode_default [of "Val ''monthly''" double 100 "Val 0"
        "\<lparr>unionDuesRate = Val 0.05, taxMode = Undefined\<rparr>"]
      early annualized
    by simp
qed


text \<open>
  C9. As stated, for the code, the last part of the claim fails: with
  \<open>taxableWeekly = 1500\<close> the \<open>netPayTotal\<close> for \<open>nonTaxableWeekly = 1000\<close> and for
  \<open>nonTaxableWeekly = 1\<close> are the doubles 2067.994144230769 and 1068.9941442307693,
  which do not differ by 999, in both engines.

  What holds, for every rounding function and so for the code as it runs: changing only
  \<open>nonTaxableWeekly\<close> leaves \<open>cpp\<close>, \<open>cpp2\<close>, \<open>ei\<close>, \<open>federalTax\<close>,
  \<open>albertaTax\<close>, \<open>unionDues\<close>, \<open>totalDeductions\<close> and \<open>netTaxableOnly\<close> unchanged,
  and each \<open>netPayTotal\<close> is the rounded sum of \<open>netTaxableOnly\<close> and its
  \<open>nonTaxableWeekly\<close>; in exact arithmetic the two \<open>netPayTotal\<close> differ by
  \<open>n1 - n2\<close>.
\<close>

theorem non_taxable_frame_counterexample:
  "netPayTotal (calculateDeductionsForWeek_rd double 1500 (Val 1000) None)
     - netPayTotal (calculateDeductionsForWeek_rd double 1500 (Val 1) None) \<noteq> 1000 - 1
   \<and> netPayTotal (calculateDeductionsForWeek_alt_rd double 1500 (Val 1000) Undefined)
     - netPayTotal (calculateDeductionsForWeek_alt_rd double 1500 (Val 1) Undefined) \<noteq> 1000 - 1"
  by (simp add: netPayTotal_1500 netPayTotal_alt_1500)

theorem non_taxable_frame:
  "(let r1 = calculateDeductionsForWeek_rd rd t (Val n1) opts;
        r2 = calculateDeductionsForWeek_rd rd t (Val n2) opts in
      cpp r1 = cpp r2 \<and> cpp2 r1 = cpp2 r2 \<and> ei r1 = ei r2
      \<and> federalTax r1 = federalTax r2 \<and> albertaTax r1 = albertaTax r2
      \<and> unionDues r1 = unionDues r2 \<and> totalDeductions r1 = totalDeductions r2
      \<and> netTaxableOnly r1 = netTaxableOnly r2
      \<and> netPayTotal r1 = rd (netTaxableOnly r1 + n1)
      \<and> netPayTotal r2 = rd (netTaxableOnly r2 + n2))
   \<and> (let r1 = calculateDeductionsForWeek_alt_rd rd t (Val n1) tm;
        r2 = calculateDeductionsForWeek_alt_rd rd t (Val n2) tm in
      cpp r1 = cpp r2 \<and> cpp2 r1 = cpp2 r2 \<and> ei r1 = ei r2
      \<and> federalTax r1 = federalTax r2 \<and> albertaTax r1 = albertaTax r2
      \<and> unionDues r1 = unionDues r2 \<and> totalDeductions r1 = totalDeductions r2
      \<and> netTaxableOnly r1 = netTaxableOnly r2
      \<and> netPayTotal r1 = rd (netTaxableOnly r1 + n1)
      \<and> netPayTotal r2 = rd (netTaxableOnly r2 + n2))
   \<and> netPayTotal (calculateDeductionsForWeek_rd (\<lambda>x. x) t (Val n1) opts)
       - netPayTotal (calculateDeductionsForWeek_rd (\<lambda>x. x) t (Val n2) opts) = n1 - n2
   \<and> netPayTotal (calculateDeductionsForWeek_alt_rd (\<lambda>x. x) t (Val n1) tm)
       - netPayTotal (calculateDeductionsForWeek_alt_rd (\<lambda>x. x) t (Val n2) tm) = n1 - n2"
  by (simp add: calculateDeductionsForWeek_rd_def calculateDeductionsForWeek_alt_rd_def Let_def)

text \<open>
  C10. In calculator.js an explicit \<open>unionDuesRate\<close> of 0 gives \<open>unionDues = 0\<close>;
  every numeric rate \<open>r\<close>, zero included, is used as it is, and the default 0.0375
  applies when the option is \<open>undefined\<close> or \<open>null\<close>, or the options argument is
  omitted.
\<close>

theorem union_dues_rate_honored:
  "unionDues (calculateDeductionsForWeek t n (Some \<lparr>unionDuesRate = Val 0, taxMode = tm\<rparr>)) = 0
   \<and> unionDues (calculateDeductionsForWeek t n (Some \<lparr>unionDuesRate = Val r, taxMode = tm\<rparr>)) = t * r
   \<and> unionDues (calculateDeductionsForWeek t n (Some \<lparr>unionDuesRate = Undefined, taxMode = tm\<rparr>)) = t * 0.0375
   \<and> unionDues (calculateDeductionsForWeek t n (Some \<lparr>unionDuesRate = Null, taxMode = tm\<rparr>)) = t * 0.0375
   \<and> unionDues (calculateDeductionsForWeek t n None) = t * 0.0375"
  by (simp add: calculateDeductionsForWeek_def Let_def defaultOptions_def DEFAULT_UNION_DUES_RATE_def)

end
